theory Spec2Isabelle
  imports Complex_Main "HOL-Library.AList"
begin

section \<open>Python values, errors and text\<close>

text \<open>
  The provider hands back JSON-like values: nothing, a string, an integer or a float.
  Floats are idealised as exact reals (no binary rounding, no NaN among the data); text
  is a list of bytes, with the rupee sign written as its three UTF-8 bytes, and the
  string operations are those of Python on ASCII text.
\<close>

datatype pyval = PNone | PStr string | PInt int | PFloat real

datatype py_error = TypeError | ValueError | ProviderError

fun truthy :: "pyval \<Rightarrow> bool" where
  "truthy PNone = False"
| "truthy (PStr s) = (s \<noteq> [])"
| "truthy (PInt n) = (n \<noteq> 0)"
| "truthy (PFloat x) = (x \<noteq> 0)"

fun num_of :: "pyval \<Rightarrow> real option" where
  "num_of (PInt n) = Some (real_of_int n)"
| "num_of (PFloat x) = Some x"
| "num_of _ = None"

definition py_or :: "pyval \<Rightarrow> pyval \<Rightarrow> pyval" where
  "py_or a b = (if truthy a then a else b)"

definition rupee :: string where
  "rupee = [CHR 0xE2, CHR 0x82, CHR 0xB9]"

subsection \<open>Fixed-point number formatting\<close>

definition digit_char :: "nat \<Rightarrow> char" where
  "digit_char d = ''0123456789'' ! d"

fun str_nat :: "nat \<Rightarrow> string" where
  "str_nat n = (if n < 10 then [digit_char n] else str_nat (n div 10) @ [digit_char (n mod 10)])"

declare str_nat.simps [simp del]

fun group_thousands :: "string \<Rightarrow> string" where
  "group_thousands s =
     (if length s \<le> 3 then s
      else group_thousands (take (length s - 3) s) @ CHR '','' # drop (length s - 3) s)"

declare group_thousands.simps [simp del]

definition round_half_even :: "real \<Rightarrow> int" where
  "round_half_even x =
     (let f = \<lfloor>x\<rfloor>; r = x - of_int f
      in if r < 1 / 2 then f
         else if 1 / 2 < r then f + 1
         else if even f then f else f + 1)"

text \<open>
  The format specifications \<open>.pf\<close> and \<open>,.pf\<close>: the magnitude rounded to \<open>p\<close> decimals
  (ties to even), a minus sign for a negative number, the integer part grouped by
  commas when asked, and the fraction padded to \<open>p\<close> digits.
\<close>

definition fmt_f :: "bool \<Rightarrow> nat \<Rightarrow> real \<Rightarrow> string" where
  "fmt_f comma p x =
     (let q = nat (round_half_even (\<bar>x\<bar> * 10 ^ p));
          ip = str_nat (q div 10 ^ p);
          fp = str_nat (q mod 10 ^ p)
      in (if x < 0 then ''-'' else '''')
         @ (if comma then group_thousands ip else ip)
         @ (if p = 0 then '''' else CHR ''.'' # replicate (p - length fp) CHR ''0'' @ fp))"

section \<open>Market data handler: formatters\<close>

definition format_market_cap :: "pyval \<Rightarrow> py_error + string" where
  "format_market_cap market_cap =
     (if \<not> truthy market_cap \<or> market_cap = PStr ''N/A'' then Inr ''N/A''
      else case num_of market_cap of
        None \<Rightarrow> Inl TypeError
      | Some m \<Rightarrow>
          if 10 ^ 12 \<le> m then Inr (rupee @ fmt_f False 2 (m / 10 ^ 12) @ ''T'')
          else if 10 ^ 9 \<le> m then Inr (rupee @ fmt_f False 2 (m / 10 ^ 9) @ ''B'')
          else if 10 ^ 6 \<le> m then Inr (rupee @ fmt_f False 2 (m / 10 ^ 6) @ ''M'')
          else Inr (rupee @ fmt_f True 0 m))"

definition format_volume :: "pyval \<Rightarrow> py_error + string" where
  "format_volume volume =
     (if \<not> truthy volume \<or> volume = PStr ''N/A'' then Inr ''N/A''
      else case num_of volume of
        None \<Rightarrow> Inl ValueError
      | Some v \<Rightarrow> Inr (fmt_f True 0 v))"

section \<open>Market data handler: provider, live price, market status, metrics\<close>

text \<open>
  One bar of a price history (a row of the provider's table) and the provider itself.
  Every provider call may raise and may change the outside world \<open>'w\<close>; a call is a
  function from the world to a result and the world after it.
\<close>

record bar =
  b_time :: int
  b_open :: real
  b_high :: real
  b_low :: real
  b_close :: real
  b_volume :: real

type_synonym 'w history_call = "string \<Rightarrow> 'w \<Rightarrow> (py_error + bar list) \<times> 'w"

type_synonym 'w info_call = "string \<Rightarrow> 'w \<Rightarrow> (py_error + (string \<rightharpoonup> pyval)) \<times> 'w"

text \<open>
  The quotient of two floats of the numeric library: a zero divisor raises nothing and
  yields an infinity or a NaN, here the one value \<open>NonFinite\<close>.
\<close>

datatype npfloat = Finite real | NonFinite

definition np_div :: "real \<Rightarrow> real \<Rightarrow> npfloat" where
  "np_div a b = (if b = 0 then NonFinite else Finite (a / b))"

fun np_times :: "npfloat \<Rightarrow> real \<Rightarrow> npfloat" where
  "np_times (Finite a) c = Finite (a * c)"
| "np_times NonFinite c = NonFinite"

record live_price =
  lp_price :: real
  lp_time :: int
  lp_change :: real
  lp_pct_change :: npfloat
  lp_volume :: real

definition get_live_price :: "'w history_call \<Rightarrow> string \<Rightarrow> 'w \<Rightarrow> live_price option \<times> 'w" where
  "get_live_price minute_history ticker w =
     (case minute_history ticker w of
        (Inl e, w') \<Rightarrow> (None, w')
      | (Inr hist, w') \<Rightarrow>
          if hist \<noteq> [] then
            (Some \<lparr>lp_price = b_close (last hist),
                   lp_time = b_time (last hist),
                   lp_change =
                     (if 1 < length hist
                      then b_close (last hist) - b_close (hist ! (length hist - 2)) else 0),
                   lp_pct_change =
                     (if 1 < length hist
                      then np_times
                             (np_div (b_close (last hist) - b_close (hist ! (length hist - 2)))
                                (b_close (hist ! (length hist - 2)))) 100
                      else Finite 0),
                   lp_volume = b_volume (last hist)\<rparr>, w')
          else (None, w'))"

subsection \<open>Market status\<close>

text \<open>
  The wall clock in Asia/Kolkata: the weekday of the date (Monday is 0) and the time of
  day. The zone has no daylight saving, so replacing the time fields stays on the same
  date and two such times compare field by field.
\<close>

record datetime =
  weekday :: nat
  hour :: nat
  minute :: nat
  second :: nat
  microsecond :: nat

definition valid_datetime :: "datetime \<Rightarrow> bool" where
  "valid_datetime d =
     (weekday d < 7 \<and> hour d < 24 \<and> minute d < 60 \<and> second d < 60 \<and> microsecond d < 1000000)"

definition replace_time :: "datetime \<Rightarrow> nat \<Rightarrow> nat \<Rightarrow> nat \<Rightarrow> nat \<Rightarrow> datetime" where
  "replace_time d h m s us = d\<lparr>hour := h, minute := m, second := s, microsecond := us\<rparr>"

definition dt_less :: "datetime \<Rightarrow> datetime \<Rightarrow> bool" where
  "dt_less a b =
     (hour a < hour b \<or> (hour a = hour b \<and>
       (minute a < minute b \<or> (minute a = minute b \<and>
         (second a < second b \<or> (second a = second b \<and> microsecond a < microsecond b))))))"

definition micros_of_day :: "datetime \<Rightarrow> int" where
  "micros_of_day d =
     ((int (hour d) * 60 + int (minute d)) * 60 + int (second d)) * 1000000 + int (microsecond d)"

definition seconds_of_day :: "datetime \<Rightarrow> nat" where
  "seconds_of_day d = hour d * 3600 + minute d * 60 + second d"

text \<open>A time difference is a count of microseconds; \<open>td_seconds\<close> is the seconds field
  of the normalised difference (days, seconds below 86400, microseconds).\<close>

definition dt_sub :: "datetime \<Rightarrow> datetime \<Rightarrow> int" where
  "dt_sub a b = micros_of_day a - micros_of_day b"

definition td_seconds :: "int \<Rightarrow> int" where
  "td_seconds delta = (delta div 1000000) mod 86400"

record market_status =
  is_open :: bool
  status :: string

definition countdown :: "int \<Rightarrow> string" where
  "countdown time_left =
     str_nat (nat (td_seconds time_left div 3600)) @ ''h ''
     @ str_nat (nat ((td_seconds time_left div 60) mod 60)) @ ''m''"

definition get_market_status :: "datetime \<Rightarrow> market_status" where
  "get_market_status now =
     (let opening_time = replace_time now 9 15 0 0;
          closing_time = replace_time now 15 30 0 0
      in if 5 \<le> weekday now then \<lparr>is_open = False, status = ''Closed (Weekend)''\<rparr>
         else if dt_less now opening_time then
           \<lparr>is_open = False, status = ''Opens in '' @ countdown (dt_sub opening_time now)\<rparr>
         else if dt_less closing_time now then \<lparr>is_open = False, status = ''Closed''\<rparr>
         else \<lparr>is_open = True,
                status = ''Open ('' @ countdown (dt_sub closing_time now) @ '' left)''\<rparr>)"

subsection \<open>Fundamental metrics\<close>

definition dict_get :: "(string \<rightharpoonup> pyval) \<Rightarrow> string \<Rightarrow> pyval \<Rightarrow> pyval" where
  "dict_get d k dflt = (case d k of Some v \<Rightarrow> v | None \<Rightarrow> dflt)"

record metrics =
  current_price :: pyval
  week52_high :: pyval
  week52_low :: pyval
  pe_ratio :: pyval
  market_cap :: pyval
  volume :: pyval
  beta :: pyval
  dividend_yield :: pyval
  sector :: pyval
  industry :: pyval

definition format_dividend_yield :: "(string \<rightharpoonup> pyval) \<Rightarrow> py_error + string" where
  "format_dividend_yield info =
     (if truthy (dict_get info ''dividendYield'' PNone) then
        (case num_of (dict_get info ''dividendYield'' (PInt 0)) of
           None \<Rightarrow> Inl ValueError
         | Some y \<Rightarrow> Inr (fmt_f False 2 (y * 100) @ ''%''))
      else Inr ''N/A'')"

text \<open>The body of \<open>get_stock_metrics\<close> inside its \<open>try\<close>: an error is a raised exception.\<close>

definition stock_metrics_body ::
  "'w info_call \<Rightarrow> 'w history_call \<Rightarrow> string \<Rightarrow> 'w \<Rightarrow> (py_error + metrics) \<times> 'w" where
  "stock_metrics_body get_info year_history ticker w =
     (case get_info ticker w of
        (Inl e, w1) \<Rightarrow> (Inl e, w1)
      | (Inr info, w1) \<Rightarrow>
          (case year_history ticker w1 of
             (Inl e, w2) \<Rightarrow> (Inl e, w2)
           | (Inr hist, w2) \<Rightarrow>
               (let fifty_two_week_high =
                      (if hist \<noteq> [] then PFloat (Max (set (map b_high hist))) else PNone);
                    fifty_two_week_low =
                      (if hist \<noteq> [] then PFloat (Min (set (map b_low hist))) else PNone)
                in case format_market_cap (dict_get info ''marketCap'' PNone) of
                     Inl e \<Rightarrow> (Inl e, w2)
                   | Inr cap \<Rightarrow>
                       (case format_volume
                               (dict_get info ''volume''
                                  (dict_get info ''averageVolume'' (PStr ''N/A''))) of
                          Inl e \<Rightarrow> (Inl e, w2)
                        | Inr vol \<Rightarrow>
                            (case format_dividend_yield info of
                               Inl e \<Rightarrow> (Inl e, w2)
                             | Inr dy \<Rightarrow>
                                 (Inr \<lparr>current_price =
                                          dict_get info ''currentPrice''
                                            (dict_get info ''regularMarketPrice'' (PStr ''N/A'')),
                                        week52_high =
                                          py_or fifty_two_week_high
                                            (dict_get info ''fiftyTwoWeekHigh'' (PStr ''N/A'')),
                                        week52_low =
                                          py_or fifty_two_week_low
                                            (dict_get info ''fiftyTwoWeekLow'' (PStr ''N/A'')),
                                        pe_ratio =
                                          dict_get info ''trailingPE''
                                            (dict_get info ''forwardPE'' (PStr ''N/A'')),
                                        market_cap = PStr cap,
                                        volume = PStr vol,
                                        beta = dict_get info ''beta'' (PStr ''N/A''),
                                        dividend_yield = PStr dy,
                                        sector = dict_get info ''sector'' (PStr ''N/A''),
                                        industry = dict_get info ''industry'' (PStr ''N/A'')\<rparr>,
                                  w2))))))"

definition get_stock_metrics ::
  "'w info_call \<Rightarrow> 'w history_call \<Rightarrow> string \<Rightarrow> 'w \<Rightarrow> metrics option \<times> 'w" where
  "get_stock_metrics get_info year_history ticker w =
     (case stock_metrics_body get_info year_history ticker w of
        (Inl e, w') \<Rightarrow> (None, w')
      | (Inr m, w') \<Rightarrow> (Some m, w'))"

section \<open>Chart builder\<close>

record line_trace =
  lt_name :: string
  lt_color :: string
  lt_y :: "real option list"

text \<open>
  The data-frame library's moving averages. \<open>rolling_mean\<close> is the mean over a window
  of the last \<open>window\<close> samples, undefined (\<open>None\<close>) until the window is full;
  \<open>ewm_mean\<close> is the exponentially weighted mean without adjustment: the first sample,
  then \<open>(1 - a) * previous + a * sample\<close> with \<open>a = 2 / (span_n + 1)\<close>.
\<close>

definition rolling_mean :: "nat \<Rightarrow> real list \<Rightarrow> real option list" where
  "rolling_mean window xs =
     map (\<lambda>i. if i + 1 < window then None
              else Some (sum_list (take window (drop (i + 1 - window) xs)) / real window))
       [0..<length xs]"

fun ewm_from :: "real \<Rightarrow> real \<Rightarrow> real list \<Rightarrow> real list" where
  "ewm_from a prev [] = []"
| "ewm_from a prev (x # xs) = ((1 - a) * prev + a * x) # ewm_from a ((1 - a) * prev + a * x) xs"

definition ewm_mean :: "nat \<Rightarrow> real list \<Rightarrow> real list" where
  "ewm_mean span_n xs =
     (case xs of [] \<Rightarrow> [] | x # rest \<Rightarrow> x # ewm_from (2 / (real span_n + 1)) x rest)"

definition create_live_chart :: "(int \<times> real) list \<Rightarrow> string \<Rightarrow> string list \<Rightarrow> line_trace list" where
  "create_live_chart data title indicators =
     [\<lparr>lt_name = ''Price'', lt_color = ''#4CAF50'', lt_y = map (Some \<circ> snd) data\<rparr>]
     @ (if ''sma'' \<in> set indicators \<and> 20 < length data
        then [\<lparr>lt_name = ''SMA 20'', lt_color = ''#FFA500'',
               lt_y = rolling_mean 20 (map snd data)\<rparr>]
        else [])
     @ (if ''ema'' \<in> set indicators \<and> 50 < length data
        then [\<lparr>lt_name = ''EMA 50'', lt_color = ''#00BFFF'',
               lt_y = map Some (ewm_mean 50 (map snd data))\<rparr>]
        else [])"

record bar_trace =
  bt_x :: "string list"
  bt_y :: "real list"
  bt_marker_color :: "string list"
  bt_text :: "string list"

text \<open>
  The frame handed to the comparison chart is the list of its rows, each the pair of the
  category column and the value column. The column maximum of an empty column is a NaN,
  and no comparison with it holds.
\<close>

definition scale_percent :: "real list \<Rightarrow> real list" where
  "scale_percent ys = (if ys \<noteq> [] \<and> Max (set ys) \<le> 1 then map (\<lambda>y. y * 100) ys else ys)"

definition create_comparison_chart :: "(string \<times> real) list \<Rightarrow> string \<Rightarrow> bar_trace" where
  "create_comparison_chart df title =
     (let ys = scale_percent (map snd df)
      in \<lparr>bt_x = map fst df,
          bt_y = ys,
          bt_marker_color = map (\<lambda>x. if 0 \<le> x then ''#4CAF50'' else ''#F44336'') ys,
          bt_text = map (\<lambda>x. (if 0 \<le> x then ''+'' else []) @ fmt_f False 2 x @ ''%'') ys\<rparr>)"

section \<open>Application orchestrator\<close>

subsection \<open>Watch-list assembly\<close>

definition py_isspace :: "char \<Rightarrow> bool" where
  "py_isspace c =
     (c \<in> set [CHR 0x09, CHR 0x0A, CHR 0x0B, CHR 0x0C, CHR 0x0D,
                CHR 0x1C, CHR 0x1D, CHR 0x1E, CHR 0x1F, CHR 0x20])"

definition strip :: "string \<Rightarrow> string" where
  "strip s = rev (dropWhile py_isspace (rev (dropWhile py_isspace s)))"

definition ascii_lowercase :: string where
  "ascii_lowercase = ''abcdefghijklmnopqrstuvwxyz''"

definition ascii_uppercase :: string where
  "ascii_uppercase = ''ABCDEFGHIJKLMNOPQRSTUVWXYZ''"

definition upper_char :: "char \<Rightarrow> char" where
  "upper_char c =
     (case map_of (zip ascii_lowercase ascii_uppercase) c of
        Some u \<Rightarrow> u
      | None \<Rightarrow> c)"

definition upper :: "string \<Rightarrow> string" where
  "upper s = map upper_char s"

fun split_on :: "char \<Rightarrow> string \<Rightarrow> string list" where
  "split_on sep [] = [[]]"
| "split_on sep (c # cs) =
     (if c = sep then [] # split_on sep cs
      else (c # hd (split_on sep cs)) # tl (split_on sep cs))"

definition custom_tickers :: "string \<Rightarrow> string list" where
  "custom_tickers manual_input =
     [upper (strip t). t \<leftarrow> split_on CHR '','' manual_input, strip t \<noteq> []]"

definition ticker_list :: "string list \<Rightarrow> string list \<Rightarrow> string \<Rightarrow> string list" where
  "ticker_list default_tickers additional_tickers manual_input =
     default_tickers @ additional_tickers @ custom_tickers manual_input"

subsection \<open>Live refresh\<close>

text \<open>
  The session cache: the price map, a dictionary kept as the list of its items in
  insertion order, and the time of the last refresh. The naive wall clock of the
  refresh step is a count of microseconds.
\<close>

record price_entry =
  pe_price :: real
  pe_change :: real
  pe_pct_change :: npfloat
  pe_time :: int

record session_state =
  price_data :: "(string \<times> price_entry) list"
  last_update :: int

definition entry_of :: "live_price \<Rightarrow> price_entry" where
  "entry_of live_data =
     \<lparr>pe_price = lp_price live_data, pe_change = lp_change live_data,
      pe_pct_change = lp_pct_change live_data, pe_time = lp_time live_data\<rparr>"

text \<open>The loop over the watch-list, filling \<open>new_data\<close>.\<close>

fun fetch_all ::
  "'w history_call \<Rightarrow> string list \<Rightarrow> (string \<times> price_entry) list \<Rightarrow> 'w
     \<Rightarrow> (string \<times> price_entry) list \<times> 'w" where
  "fetch_all minute_history [] new_data w = (new_data, w)"
| "fetch_all minute_history (ticker # rest) new_data w =
     (case get_live_price minute_history ticker w of
        (None, w') \<Rightarrow> fetch_all minute_history rest new_data w'
      | (Some live_data, w') \<Rightarrow>
          fetch_all minute_history rest (AList.update ticker (entry_of live_data) new_data) w')"

definition update_live_data ::
  "'w history_call \<Rightarrow> int \<Rightarrow> string list \<Rightarrow> int \<Rightarrow> session_state \<Rightarrow> 'w \<Rightarrow> session_state \<times> 'w" where
  "update_live_data minute_history refresh_rate tickers current_time st w =
     (if refresh_rate \<le> td_seconds (current_time - last_update st) then
        (case fetch_all minute_history tickers [] w of
           (new_data, w') \<Rightarrow>
             if new_data \<noteq> [] then (st\<lparr>price_data := new_data, last_update := current_time\<rparr>, w')
             else (st, w'))
      else (st, w))"

text \<open>
  What the loop's calls returned, in order, and a run of refresh attempts: each attempt
  has its clock reading and the provider as it answers at that moment; the run lists
  the session state and the world after every attempt.
\<close>

fun fetch_results :: "'w history_call \<Rightarrow> string list \<Rightarrow> 'w \<Rightarrow> (string \<times> live_price option) list" where
  "fetch_results minute_history [] w = []"
| "fetch_results minute_history (ticker # rest) w =
     (case get_live_price minute_history ticker w of
        (r, w') \<Rightarrow> (ticker, r) # fetch_results minute_history rest w')"

fun run_attempts ::
  "int \<Rightarrow> string list \<Rightarrow> (int \<times> 'w history_call) list \<Rightarrow> session_state \<Rightarrow> 'w
     \<Rightarrow> (session_state \<times> 'w) list" where
  "run_attempts refresh_rate tickers [] st w = []"
| "run_attempts refresh_rate tickers ((current_time, minute_history) # rest) st w =
     (case update_live_data minute_history refresh_rate tickers current_time st w of
        (st', w') \<Rightarrow> (st', w') # run_attempts refresh_rate tickers rest st' w')"

section \<open>Properties of the formatters\<close>

lemma round_half_even_of_int: "round_half_even (of_int n) = n"
  by (simp add: round_half_even_def)

lemma round_half_even_numeral: "round_half_even (numeral k) = numeral k"
  using round_half_even_of_int [of "numeral k"] by simp

lemma fmt_f_2_50: "fmt_f False 2 (5 / 2) = ''2.50''"
  by (simp add: fmt_f_def round_half_even_numeral str_nat.simps digit_char_def)

lemma fmt_f_3_20: "fmt_f False 2 (16 / 5) = ''3.20''"
  by (simp add: fmt_f_def round_half_even_numeral str_nat.simps digit_char_def)

lemma fmt_f_750000: "fmt_f True 0 750000 = ''750,000''"
  by (simp add: fmt_f_def round_half_even_numeral str_nat.simps digit_char_def
      group_thousands.simps)

lemma fmt_f_4321: "fmt_f True 0 4321 = ''4,321''"
  by (simp add: fmt_f_def round_half_even_numeral str_nat.simps digit_char_def
      group_thousands.simps)

lemma format_market_cap_750000:
  "format_market_cap (PInt 750000) = Inr (rupee @ ''750,000'')"
  by (simp add: format_market_cap_def fmt_f_750000)

text \<open>
  Claim C3, as stated, has \<open>format_market_cap\<close> map 750000 to the rupee sign followed
  by \<open>0.75M\<close>. The million branch starts at one million, so 750000 takes the last
  branch and is written in full with thousands separators.
\<close>

theorem format_market_cap_750000_counterexample:
  "format_market_cap (PInt 750000) = Inr (rupee @ ''750,000'')
   \<and> format_market_cap (PInt 750000) \<noteq> Inr (rupee @ ''0.75M'')"
  by (simp add: format_market_cap_750000)

text \<open>
  Claim C3, amended: \<open>format_market_cap\<close> maps 2500000000000 to the rupee sign followed
  by \<open>2.50T\<close>, 3200000000 to \<open>3.20B\<close>, 750000 to \<open>750,000\<close>, 4321 to \<open>4,321\<close>, and an
  absent value or the string \<open>N/A\<close> to \<open>N/A\<close>.
\<close>

theorem format_market_cap_examples:
  "format_market_cap (PInt 2500000000000) = Inr (rupee @ ''2.50T'')
   \<and> format_market_cap (PInt 3200000000) = Inr (rupee @ ''3.20B'')
   \<and> format_market_cap (PInt 750000) = Inr (rupee @ ''750,000'')
   \<and> format_market_cap (PInt 4321) = Inr (rupee @ ''4,321'')
   \<and> format_market_cap PNone = Inr ''N/A''
   \<and> format_market_cap (PStr ''N/A'') = Inr ''N/A''"
  by (simp add: format_market_cap_def fmt_f_2_50 fmt_f_3_20 fmt_f_750000 fmt_f_4321)

theorem format_market_cap_examples_witness:
  "truthy (PInt 4321) \<and> format_market_cap (PInt 4321) = Inr (rupee @ ''4,321'')"
  using format_market_cap_examples by simp

text \<open>
  Claim C10: \<open>format_market_cap\<close> and \<open>format_volume\<close> return \<open>N/A\<close> for every falsy
  input (nothing, the empty string, the integer 0, the float 0), so a market cap or a
  volume of 0 is shown as \<open>N/A\<close> and not as a formatted zero.
\<close>

theorem falsy_formats_as_not_available:
  "(\<not> truthy v \<longrightarrow> format_market_cap v = Inr ''N/A'' \<and> format_volume v = Inr ''N/A'')
   \<and> (\<not> truthy v \<longleftrightarrow> v = PNone \<or> v = PStr [] \<or> v = PInt 0 \<or> v = PFloat 0)"
  by (cases v) (simp_all add: format_market_cap_def format_volume_def)

theorem falsy_formats_as_not_available_witness:
  "\<not> truthy (PInt 0) \<and> format_market_cap (PInt 0) = Inr ''N/A''
   \<and> format_volume (PInt 0) = Inr ''N/A''
   \<and> format_market_cap (PInt 0) \<noteq> Inr (rupee @ ''0'') \<and> format_volume (PInt 0) \<noteq> Inr ''0''"
  using falsy_formats_as_not_available [of "PInt 0"] by simp

section \<open>Properties of the market status\<close>

lemma micros_of_day_seconds:
  "micros_of_day d = int (seconds_of_day d) * 1000000 + int (microsecond d)"
  by (simp add: micros_of_day_def seconds_of_day_def)

lemma dt_less_opening:
  "valid_datetime now \<Longrightarrow>
   dt_less now (replace_time now 9 15 0 0) = (seconds_of_day now < 33300)"
  by (auto simp: dt_less_def replace_time_def valid_datetime_def seconds_of_day_def)

lemma dt_less_closing:
  "valid_datetime now \<Longrightarrow>
   dt_less (replace_time now 15 30 0 0) now = (55800000000 < micros_of_day now)"
  by (auto simp: dt_less_def replace_time_def valid_datetime_def micros_of_day_def)

lemma micros_opening: "micros_of_day (replace_time now 9 15 0 0) = 33300000000"
  by (simp add: micros_of_day_def replace_time_def)

lemma micros_closing: "micros_of_day (replace_time now 15 30 0 0) = 55800000000"
  by (simp add: micros_of_day_def replace_time_def)

lemma countdown_within_day:
  "0 \<le> delta \<Longrightarrow> delta < 86400000000 \<Longrightarrow>
   countdown delta =
     str_nat (nat (delta div 1000000 div 3600)) @ ''h ''
     @ str_nat (nat (delta div 1000000 div 60 mod 60)) @ ''m''"
  by (simp add: countdown_def td_seconds_def)

lemma micros_of_day_bounds:
  "valid_datetime now \<Longrightarrow> 0 \<le> micros_of_day now \<and> micros_of_day now < 86400000000"
  by (auto simp: valid_datetime_def micros_of_day_def)

text \<open>
  Claim C1, as stated, has the market closed, with status \<open>Closed\<close>, at 15:30:00 on a
  weekday. The closing test is a strict comparison, so on the stroke of 15:30:00 the
  market is still reported open, with no time left.
\<close>

theorem get_market_status_monday_1530_counterexample:
  "get_market_status \<lparr>weekday = 0, hour = 15, minute = 30, second = 0, microsecond = 0\<rparr>
   = \<lparr>is_open = True, status = ''Open (0h 0m left)''\<rparr>"
  by (simp add: get_market_status_def replace_time_def dt_less_def dt_sub_def micros_of_day_def
      countdown_def td_seconds_def str_nat.simps digit_char_def)

text \<open>
  Claim C1, amended: on Saturday and Sunday the status is closed with the text
  \<open>Closed (Weekend)\<close> at any time of day. On a weekday the market is open exactly from
  09:15:00 up to and including 15:30:00.000000, with the hours and minutes left until
  15:30; before 09:15:00 it is closed with the countdown \<open>Opens in {H}h {M}m\<close> to 09:15;
  from the first microsecond after 15:30:00 it is closed with the text \<open>Closed\<close> and no
  countdown.
\<close>

theorem get_market_status_boundaries:
  assumes "valid_datetime now"
  shows "(5 \<le> weekday now \<longrightarrow>
            get_market_status now = \<lparr>is_open = False, status = ''Closed (Weekend)''\<rparr>)
       \<and> (weekday now < 5 \<longrightarrow>
            (is_open (get_market_status now) \<longleftrightarrow>
               33300 \<le> seconds_of_day now \<and> micros_of_day now \<le> 55800000000)
          \<and> (seconds_of_day now < 33300 \<longrightarrow>
               get_market_status now =
                 \<lparr>is_open = False,
                  status = ''Opens in ''
                    @ str_nat (nat ((33300000000 - micros_of_day now) div 1000000 div 3600)) @ ''h ''
                    @ str_nat (nat ((33300000000 - micros_of_day now) div 1000000 div 60 mod 60))
                    @ ''m''\<rparr>)
          \<and> (55800000000 < micros_of_day now \<longrightarrow>
               get_market_status now = \<lparr>is_open = False, status = ''Closed''\<rparr>)
          \<and> (33300 \<le> seconds_of_day now \<and> micros_of_day now \<le> 55800000000 \<longrightarrow>
               get_market_status now =
                 \<lparr>is_open = True,
                  status = ''Open (''
                    @ str_nat (nat ((55800000000 - micros_of_day now) div 1000000 div 3600)) @ ''h ''
                    @ str_nat (nat ((55800000000 - micros_of_day now) div 1000000 div 60 mod 60))
                    @ ''m left)''\<rparr>))"
proof -
  note b = micros_of_day_bounds [OF assms]
  have lt: "seconds_of_day now < 33300 \<Longrightarrow> micros_of_day now < 33300000000"
    using assms by (simp add: micros_of_day_seconds valid_datetime_def)
  have ge: "33300 \<le> seconds_of_day now \<Longrightarrow> 33300000000 \<le> micros_of_day now"
    by (simp add: micros_of_day_seconds)
  show ?thesis
    using b lt ge
    by (auto simp: get_market_status_def Let_def dt_less_opening [OF assms]
        dt_less_closing [OF assms] dt_sub_def micros_opening micros_closing
        countdown_within_day)
qed

theorem get_market_status_boundaries_witness:
  "valid_datetime \<lparr>weekday = 2, hour = 15, minute = 29, second = 59, microsecond = 999999\<rparr>
   \<and> is_open (get_market_status
        \<lparr>weekday = 2, hour = 15, minute = 29, second = 59, microsecond = 999999\<rparr>)"
proof -
  have v: "valid_datetime \<lparr>weekday = 2, hour = 15, minute = 29, second = 59, microsecond = 999999\<rparr>"
    by (simp add: valid_datetime_def)
  show ?thesis
    using v get_market_status_boundaries [OF v]
    by (simp add: seconds_of_day_def micros_of_day_def)
qed

section \<open>Properties of the live price\<close>

text \<open>
  Claim C8: for a series of at least two minute bars \<open>get_live_price\<close> returns a
  snapshot whose change is the last close minus the close before it, and whose percent
  change is that difference divided by the close before it, times 100 (a previous close of
  100 and a last close of 105 give 5); for a single bar both are 0; for an empty series,
  or when the provider raises, it returns nothing rather than a record. The percent
  change is stated for a non-zero previous close, where the quotient is a number.
\<close>

theorem get_live_price_change:
  "(minute_history ticker w = (Inr (pre @ [prev, cur]), w') \<longrightarrow>
      (\<exists>snap. get_live_price minute_history ticker w = (Some snap, w')
         \<and> lp_price snap = b_close cur
         \<and> lp_change snap = b_close cur - b_close prev
         \<and> (b_close prev \<noteq> 0 \<longrightarrow>
              lp_pct_change snap
                = Finite ((b_close cur - b_close prev) / b_close prev * 100))))
   \<and> (minute_history ticker w = (Inr [only], w') \<longrightarrow>
      (\<exists>snap. get_live_price minute_history ticker w = (Some snap, w')
         \<and> lp_price snap = b_close only
         \<and> lp_change snap = 0 \<and> lp_pct_change snap = Finite 0))
   \<and> (minute_history ticker w = (Inr [], w') \<longrightarrow>
        get_live_price minute_history ticker w = (None, w'))
   \<and> (minute_history ticker w = (Inl e, w') \<longrightarrow>
        get_live_price minute_history ticker w = (None, w'))"
  by (simp add: get_live_price_def nth_append np_div_def)

theorem get_live_price_change_witness:
  "\<exists>snap. get_live_price
       (\<lambda>t w. (Inr [\<lparr>b_time = 0, b_open = 100, b_high = 100, b_low = 100, b_close = 100,
                       b_volume = 10\<rparr>,
                     \<lparr>b_time = 60000000, b_open = 100, b_high = 105, b_low = 100, b_close = 105,
                       b_volume = 20\<rparr>], w))
       ''TCS.NS'' ()
     = (Some snap, ()) \<and> lp_change snap = 5 \<and> lp_pct_change snap = Finite 5"
  using get_live_price_change
    [of "\<lambda>t w. (Inr [\<lparr>b_time = 0, b_open = 100, b_high = 100, b_low = 100, b_close = 100,
                       b_volume = 10\<rparr>,
                     \<lparr>b_time = 60000000, b_open = 100, b_high = 105, b_low = 100, b_close = 105,
                       b_volume = 20\<rparr>], w)"
        "''TCS.NS''" "()" "[]"
        "\<lparr>b_time = 0, b_open = 100, b_high = 100, b_low = 100, b_close = 100, b_volume = 10\<rparr>"
        "\<lparr>b_time = 60000000, b_open = 100, b_high = 105, b_low = 100, b_close = 105,
          b_volume = 20\<rparr>" "()"]
  by auto

section \<open>Properties of the chart builder\<close>

lemma scale_percent_iff:
  "scale_percent ys = (if \<forall>v \<in> set ys. v \<le> 1 then map (\<lambda>v. v * 100) ys else ys)"
  by (cases "ys = []") (simp_all add: scale_percent_def)

text \<open>
  Claim C4, as stated, has \<open>create_comparison_chart\<close> leave the column unscaled when
  some value exceeds 1 in magnitude. The test is on the column maximum, with its sign: a
  column with the values -5 and 0.5 has maximum 0.5 and is multiplied by 100.
\<close>

theorem create_comparison_chart_negative_counterexample:
  "1 < \<bar>- 5 :: real\<bar>
   \<and> bt_y (create_comparison_chart [(''A.NS'', - 5), (''B.NS'', 1 / 2)] ''Daily Change'')
       = [- 500, 50]"
  by (simp add: create_comparison_chart_def scale_percent_def)

text \<open>
  Claim C4, amended: \<open>create_comparison_chart\<close> multiplies every value of the value
  column by 100 if and only if every value of the column is at most 1 (the signed value,
  not the magnitude); when some value exceeds 1 no scaling is applied.
\<close>

theorem create_comparison_chart_scaling:
  "bt_y (create_comparison_chart df title) =
     (if \<forall>v \<in> set (map snd df). v \<le> 1 then map (\<lambda>v. v * 100) (map snd df) else map snd df)"
  unfolding create_comparison_chart_def Let_def by (simp add: scale_percent_iff del: set_map)

theorem create_comparison_chart_scaling_witness:
  "bt_y (create_comparison_chart [(''A.NS'', 1 / 20), (''B.NS'', - 1 / 50)] ''Daily Change'')
     = [5, - 2]
   \<and> bt_y (create_comparison_chart [(''A.NS'', 5), (''B.NS'', 1 / 2)] ''Daily Change'')
     = [5, 1 / 2]"
  using create_comparison_chart_scaling [of "[(''A.NS'', 1 / 20), (''B.NS'', - 1 / 50)]" "''Daily Change''"]
    create_comparison_chart_scaling [of "[(''A.NS'', 5), (''B.NS'', 1 / 2)]" "''Daily Change''"]
  by simp

lemma sum_list_window:
  "m + n \<le> length xs \<Longrightarrow> sum_list (take n (drop m xs)) = (\<Sum>k = m..<m + n. (xs ! k :: real))"
proof -
  assume a: "m + n \<le> length xs"
  have "sum_list (take n (drop m xs)) = (\<Sum>i = 0..<n. take n (drop m xs) ! i)"
    using a by (simp add: sum_list_sum_nth)
  also have "\<dots> = (\<Sum>i = 0..<n. xs ! (m + i))"
    using a by (intro sum.cong) (simp_all)
  also have "\<dots> = (\<Sum>k = m..<m + n. xs ! k)"
    using sum.shift_bounds_nat_ivl [of "\<lambda>k. xs ! k" 0 m n] by (simp add: add.commute)
  finally show ?thesis .
qed

lemma rolling_mean_length: "length (rolling_mean n xs) = length xs"
  by (simp add: rolling_mean_def)

lemma rolling_mean_early: "i + 1 < n \<Longrightarrow> i < length xs \<Longrightarrow> rolling_mean n xs ! i = None"
  by (simp add: rolling_mean_def)

lemma rolling_mean_20:
  assumes "19 \<le> i" "i < length xs"
  shows "rolling_mean 20 xs ! i = Some ((\<Sum>k = i - 19..i. xs ! k) / 20)"
proof -
  have w: "sum_list (take 20 (drop (i - 19) xs)) = (\<Sum>k = i - 19..<i - 19 + 20. xs ! k)"
    using assms by (intro sum_list_window) simp
  have e: "{i - 19..<i - 19 + 20} = {i - 19..i}"
    using assms by auto
  have s: "sum_list (take 20 (drop (i - 19) xs)) = (\<Sum>k = i - 19..i. xs ! k)"
    using w unfolding e .
  show ?thesis
    using assms by (simp add: rolling_mean_def s)
qed

lemma ewm_from_length: "length (ewm_from a p xs) = length xs"
  by (induction xs arbitrary: p) simp_all

lemma ewm_from_nth:
  "i < length xs \<Longrightarrow>
   ewm_from a p xs ! i = (1 - a) * ((p # ewm_from a p xs) ! i) + a * xs ! i"
proof (induction xs arbitrary: p i)
  case Nil
  then show ?case by simp
next
  case (Cons x xs)
  then show ?case by (cases i) simp_all
qed

lemma ewm_mean_length: "length (ewm_mean n xs) = length xs"
  by (cases xs) (simp_all add: ewm_mean_def ewm_from_length)

lemma ewm_mean_first: "xs \<noteq> [] \<Longrightarrow> ewm_mean n xs ! 0 = xs ! 0"
  by (cases xs) (simp_all add: ewm_mean_def)

lemma ewm_mean_step:
  "Suc i < length xs \<Longrightarrow>
   ewm_mean n xs ! Suc i
     = (1 - 2 / (real n + 1)) * ewm_mean n xs ! i + 2 / (real n + 1) * xs ! Suc i"
  by (cases xs) (simp_all add: ewm_mean_def ewm_from_nth)

text \<open>
  Claim C7: with fewer than 21 points, or without the \<open>sma\<close> indicator,
  \<open>create_live_chart\<close> adds no SMA trace; with \<open>sma\<close> and 21 or more points it adds
  exactly one, undefined on the first 19 points and equal, from the 20th point on, to
  the mean of the 20 prices ending at that point. With fewer than 51 points, or without
  the \<open>ema\<close> indicator, it adds no EMA trace; with \<open>ema\<close> and 51 or more points it
  adds exactly one: the first price, then \<open>(1 - 2/51) * previous + 2/51 * price\<close>.
\<close>

theorem create_live_chart_overlays:
  "(length data < 21 \<or> ''sma'' \<notin> set indicators \<longrightarrow>
      filter (\<lambda>t. lt_name t = ''SMA 20'') (create_live_chart data title indicators) = [])
   \<and> (''sma'' \<in> set indicators \<and> 21 \<le> length data \<longrightarrow>
      (\<exists>tr. filter (\<lambda>t. lt_name t = ''SMA 20'') (create_live_chart data title indicators) = [tr]
         \<and> length (lt_y tr) = length data
         \<and> (\<forall>i. 19 \<le> i \<and> i < length data \<longrightarrow>
               lt_y tr ! i = Some ((\<Sum>k = i - 19..i. snd (data ! k)) / 20))
         \<and> (\<forall>i<19. lt_y tr ! i = None)))
   \<and> (length data < 51 \<or> ''ema'' \<notin> set indicators \<longrightarrow>
      filter (\<lambda>t. lt_name t = ''EMA 50'') (create_live_chart data title indicators) = [])
   \<and> (''ema'' \<in> set indicators \<and> 51 \<le> length data \<longrightarrow>
      (\<exists>tr ys. filter (\<lambda>t. lt_name t = ''EMA 50'') (create_live_chart data title indicators) = [tr]
         \<and> lt_y tr = map Some ys
         \<and> length ys = length data
         \<and> ys ! 0 = snd (data ! 0)
         \<and> (\<forall>i. Suc i < length data \<longrightarrow>
               ys ! Suc i = (1 - 2 / 51) * ys ! i + 2 / 51 * snd (data ! Suc i))))"
proof -
  have sma: "\<And>i. 19 \<le> i \<Longrightarrow> i < length data \<Longrightarrow>
      rolling_mean 20 (map snd data) ! i = Some ((\<Sum>k = i - 19..i. snd (data ! k)) / 20)"
  proof -
    fix i assume a: "19 \<le> i" "i < length data"
    have "(\<Sum>k = i - 19..i. map snd data ! k) = (\<Sum>k = i - 19..i. snd (data ! k))"
      using a by (intro sum.cong) simp_all
    then show "rolling_mean 20 (map snd data) ! i = Some ((\<Sum>k = i - 19..i. snd (data ! k)) / 20)"
      using rolling_mean_20 [of i "map snd data"] a by simp
  qed
  have ema: "\<And>i. Suc i < length data \<Longrightarrow>
      ewm_mean 50 (map snd data) ! Suc i
        = (1 - 2 / 51) * ewm_mean 50 (map snd data) ! i + 2 / 51 * snd (data ! Suc i)"
    using ewm_mean_step [of _ "map snd data" 50] by simp
  have first: "51 \<le> length data \<Longrightarrow> ewm_mean 50 (map snd data) ! 0 = snd (data ! 0)"
    using ewm_mean_first [of "map snd data" 50] by (cases data) simp_all
  show ?thesis
    using sma ema first
    by (auto simp: create_live_chart_def rolling_mean_length rolling_mean_early ewm_mean_length)
qed

theorem create_live_chart_overlays_witness:
  "filter (\<lambda>t. lt_name t = ''SMA 20'') (create_live_chart [(0, 100)] ''Live'' [''sma'']) = []
   \<and> (\<exists>tr. filter (\<lambda>t. lt_name t = ''SMA 20'')
              (create_live_chart (replicate 21 (0, 2)) ''Live'' [''sma'']) = [tr]
          \<and> length (lt_y tr) = 21 \<and> lt_y tr ! 0 = None \<and> lt_y tr ! 20 = Some 2)"
proof -
  have short: "filter (\<lambda>t. lt_name t = ''SMA 20'')
      (create_live_chart [(0, 100)] ''Live'' [''sma'']) = []"
    using create_live_chart_overlays [of "[(0, 100)]" "[''sma'']" "''Live''"] by simp
  obtain tr where tr:
      "filter (\<lambda>t. lt_name t = ''SMA 20'')
         (create_live_chart (replicate 21 (0, 2)) ''Live'' [''sma'']) = [tr]"
      "length (lt_y tr) = length (replicate 21 (0 :: int, 2 :: real))"
      "\<forall>i. 19 \<le> i \<and> i < length (replicate 21 (0 :: int, 2 :: real)) \<longrightarrow>
          lt_y tr ! i = Some ((\<Sum>k = i - 19..i. snd (replicate 21 (0 :: int, 2 :: real) ! k)) / 20)"
      "\<forall>i<19. lt_y tr ! i = None"
    using create_live_chart_overlays [of "replicate 21 (0, 2)" "[''sma'']" "''Live''"]
    by auto
  have "(\<Sum>k = 20 - 19..20. snd (replicate 21 (0 :: int, 2 :: real) ! k)) = (\<Sum>k = (1::nat)..20. 2)"
    by (intro sum.cong) simp_all
  then have "(\<Sum>k = 20 - 19..20. snd (replicate 21 (0 :: int, 2 :: real) ! k)) = 40"
    by simp
  moreover have "lt_y tr ! 20
      = Some ((\<Sum>k = 20 - 19..20. snd (replicate 21 (0 :: int, 2 :: real) ! k)) / 20)"
    using tr(3) by simp
  ultimately have "lt_y tr ! 20 = Some 2" by simp
  moreover have "lt_y tr ! 0 = None" using tr(4) by simp
  moreover have "length (lt_y tr) = 21" using tr(2) by simp
  ultimately show ?thesis using short tr(1) by blast
qed

section \<open>Properties of the fundamental metrics\<close>

text \<open>
  Claim C9, as stated, has the 52-week high computed as the maximum of the daily highs
  whenever the year of history is not empty. The computed value is combined with the
  provider's field by \<open>or\<close>, which takes the provider's field when the computed value
  is falsy: a history whose highest high is 0 yields the provider's 120.
\<close>

theorem get_stock_metrics_zero_high_counterexample:
  "map_option week52_high
     (fst (get_stock_metrics
        (\<lambda>t w. (Inr [''fiftyTwoWeekHigh'' \<mapsto> PFloat 120], w))
        (\<lambda>t w. (Inr [\<lparr>b_time = 0, b_open = 0, b_high = 0, b_low = 0, b_close = 0,
                        b_volume = 0\<rparr>], w))
        ''X.NS'' ()))
   = Some (PFloat 120)
   \<and> Max (set (map b_high [\<lparr>b_time = 0, b_open = 0, b_high = 0, b_low = 0, b_close = 0,
                        b_volume = 0\<rparr>])) = 0"
  by (simp add: get_stock_metrics_def stock_metrics_body_def dict_get_def py_or_def
      format_market_cap_def format_volume_def format_dividend_yield_def)

text \<open>
  Claim C9, amended: \<open>get_stock_metrics\<close> never raises: it returns nothing exactly when
  a step of the fetch raised (the info call, the history call or a formatter), and a
  whole record otherwise. In a returned record the 52-week high is the maximum of the
  daily highs, and the 52-week low the minimum of the daily lows, when the year of
  history is not empty and that value is not zero; when the history is empty or the
  value is zero it is the provider's 52-week field, or \<open>N/A\<close> when that is absent.
\<close>

theorem get_stock_metrics_result:
  "(fst (get_stock_metrics get_info year_history ticker w) = None
      \<longleftrightarrow> (\<exists>e. fst (stock_metrics_body get_info year_history ticker w) = Inl e))
   \<and> (get_info ticker w = (Inl e, w1) \<longrightarrow>
        get_stock_metrics get_info year_history ticker w = (None, w1))
   \<and> (get_info ticker w = (Inr info, w1) \<and> year_history ticker w1 = (Inl e, w2) \<longrightarrow>
        get_stock_metrics get_info year_history ticker w = (None, w2))
   \<and> (get_info ticker w = (Inr info, w1) \<and> year_history ticker w1 = (Inr hist, w2)
        \<and> fst (get_stock_metrics get_info year_history ticker w) = Some m \<longrightarrow>
        (hist \<noteq> [] \<and> Max (set (map b_high hist)) \<noteq> 0 \<longrightarrow>
           week52_high m = PFloat (Max (set (map b_high hist))))
        \<and> (hist \<noteq> [] \<and> Min (set (map b_low hist)) \<noteq> 0 \<longrightarrow>
           week52_low m = PFloat (Min (set (map b_low hist))))
        \<and> (hist = [] \<or> Max (set (map b_high hist)) = 0 \<longrightarrow>
           week52_high m = dict_get info ''fiftyTwoWeekHigh'' (PStr ''N/A''))
        \<and> (hist = [] \<or> Min (set (map b_low hist)) = 0 \<longrightarrow>
           week52_low m = dict_get info ''fiftyTwoWeekLow'' (PStr ''N/A'')))"
  by (auto simp: get_stock_metrics_def stock_metrics_body_def py_or_def Let_def
      split: prod.splits sum.splits if_splits simp del: set_map)

theorem get_stock_metrics_result_witness:
  "\<exists>m. fst (get_stock_metrics
        (\<lambda>t w. (Inr [''fiftyTwoWeekHigh'' \<mapsto> PFloat 120], w))
        (\<lambda>t w. (Inr [\<lparr>b_time = 0, b_open = 95, b_high = 100, b_low = 90, b_close = 98,
                        b_volume = 10\<rparr>,
                      \<lparr>b_time = 1, b_open = 98, b_high = 110, b_low = 95, b_close = 105,
                        b_volume = 12\<rparr>], w))
        ''X.NS'' ()) = Some m
      \<and> week52_high m = PFloat 110 \<and> week52_low m = PFloat 90"
proof -
  let ?gi = "\<lambda>(t :: string) (w :: unit). (Inr [''fiftyTwoWeekHigh'' \<mapsto> PFloat 120]
                :: py_error + (string \<rightharpoonup> pyval), w)"
  let ?hist = "[\<lparr>b_time = 0, b_open = 95, b_high = 100, b_low = 90, b_close = 98,
                        b_volume = 10\<rparr>,
                      \<lparr>b_time = 1, b_open = 98, b_high = 110, b_low = 95, b_close = 105,
                        b_volume = 12\<rparr>]"
  let ?yh = "\<lambda>(t :: string) (w :: unit). (Inr ?hist :: py_error + bar list, w)"
  obtain m where m: "fst (get_stock_metrics ?gi ?yh ''X.NS'' ()) = Some m"
    by (simp add: get_stock_metrics_def stock_metrics_body_def dict_get_def
        format_market_cap_def format_volume_def format_dividend_yield_def)
  have "week52_high m = PFloat (Max (set (map b_high ?hist)))
        \<and> week52_low m = PFloat (Min (set (map b_low ?hist)))"
    using m get_stock_metrics_result
      [where get_info = ?gi and year_history = ?yh and ticker = "''X.NS''" and w = "()"
         and ?w1.0 = "()" and ?w2.0 = "()" and hist = ?hist and m = m
         and info = "[''fiftyTwoWeekHigh'' \<mapsto> PFloat 120]"]
    by simp
  then have "week52_high m = PFloat 110 \<and> week52_low m = PFloat 90" by simp
  with m show ?thesis by blast
qed

section \<open>Properties of the watch-list\<close>

lemma split_on_nonempty: "split_on sep s \<noteq> []"
  by (induction s) auto

lemma split_on_append: "split_on sep (a @ sep # b) = split_on sep a @ split_on sep b"
  by (induction a) (auto simp: split_on_nonempty)

lemma split_on_no_sep: "sep \<notin> set s \<Longrightarrow> split_on sep s = [s]"
  by (induction s) auto

lemma split_on_pieces: "t \<in> set (split_on sep s) \<Longrightarrow> sep \<notin> set t"
proof (induction s arbitrary: t)
  case Nil
  then show ?case by simp
next
  case (Cons c cs)
  show ?case
  proof (cases "c = sep")
    case True
    with Cons show ?thesis by auto
  next
    case False
    obtain r rs where r: "split_on sep cs = r # rs"
      using split_on_nonempty [of sep cs] by (cases "split_on sep cs") auto
    with Cons False show ?thesis by auto
  qed
qed

lemma strip_subset: "set (strip s) \<subseteq> set s"
proof -
  have "set (strip s) \<subseteq> set (rev (dropWhile py_isspace s))"
    unfolding strip_def by (metis set_dropWhileD set_rev subsetI)
  also have "\<dots> \<subseteq> set s"
    by (metis set_dropWhileD set_rev subsetI)
  finally show ?thesis .
qed

lemma dropWhile_trim_fixed:
  "dropWhile P (rev (dropWhile P (rev (dropWhile P s)))) = rev (dropWhile P (rev (dropWhile P s)))"
proof (cases "dropWhile P s")
  case Nil
  show ?thesis unfolding Nil by simp
next
  case (Cons a as)
  then have na: "\<not> P a"
    by (metis hd_dropWhile list.sel(1) list.distinct(1))
  have "dropWhile P (rev as @ [a]) = dropWhile P (rev as) @ [a] \<or> dropWhile P (rev as @ [a]) = [a]"
    using na by (simp add: dropWhile_append)
  then obtain zs where "dropWhile P (rev as @ [a]) = zs @ [a]"
    by (metis append_Nil)
  then show ?thesis
    using Cons na by simp
qed

lemma strip_idem: "strip (strip s) = strip s"
  unfolding strip_def by (simp add: dropWhile_trim_fixed)

lemma map_of_zip_SomeD: "map_of (zip xs ys) c = Some u \<Longrightarrow> c \<in> set xs \<and> u \<in> set ys"
  by (meson in_set_zipE map_of_SomeD)

lemma upper_char_cases:
  "upper_char c = c \<or> (c \<in> set ascii_lowercase \<and> upper_char c \<in> set ascii_uppercase)"
proof (cases "map_of (zip ascii_lowercase ascii_uppercase) c")
  case None
  then show ?thesis by (simp add: upper_char_def)
next
  case (Some u)
  then show ?thesis
    using map_of_zip_SomeD [OF Some] by (simp add: upper_char_def)
qed

lemma upper_char_other: "c \<notin> set ascii_lowercase \<Longrightarrow> upper_char c = c"
  using upper_char_cases [of c] by blast

lemma lowercase_not_space: "c \<in> set ascii_lowercase \<Longrightarrow> \<not> py_isspace c"
  by (auto simp: ascii_lowercase_def py_isspace_def)

lemma uppercase_not_space: "c \<in> set ascii_uppercase \<Longrightarrow> \<not> py_isspace c"
  by (auto simp: ascii_uppercase_def py_isspace_def)

lemma uppercase_not_lowercase: "c \<in> set ascii_uppercase \<Longrightarrow> c \<notin> set ascii_lowercase"
  by (auto simp: ascii_uppercase_def ascii_lowercase_def)

lemma comma_not_letter:
  "CHR '','' \<notin> set ascii_lowercase \<and> CHR '','' \<notin> set ascii_uppercase"
  by (simp add: ascii_uppercase_def ascii_lowercase_def)

lemma isspace_upper_char: "py_isspace (upper_char c) = py_isspace c"
  using upper_char_cases [of c] lowercase_not_space [of c] uppercase_not_space [of "upper_char c"]
  by auto

lemma upper_char_idem: "upper_char (upper_char c) = upper_char c"
  using upper_char_cases [of c] uppercase_not_lowercase [of "upper_char c"]
    upper_char_other [of "upper_char c"]
  by auto

lemma upper_char_comma: "upper_char c = CHR '','' \<longleftrightarrow> c = CHR '',''"
  using upper_char_cases [of c] comma_not_letter upper_char_other [of "CHR '',''"]
  by auto

lemma dropWhile_upper: "dropWhile py_isspace (upper s) = upper (dropWhile py_isspace s)"
  by (induction s) (simp_all add: upper_def isspace_upper_char)

lemma strip_upper: "strip (upper s) = upper (strip s)"
proof -
  have r: "\<And>t. rev (upper t) = upper (rev t)" by (simp add: upper_def rev_map)
  show ?thesis
    unfolding strip_def by (simp add: dropWhile_upper r)
qed

lemma upper_idem: "upper (upper s) = upper s"
  by (simp add: upper_def upper_char_idem)

lemma custom_tickers_example:
  "custom_tickers '' d.ns, ,E.NS '' = [''D.NS'', ''E.NS'']"
  by (simp add: custom_tickers_def strip_def py_isspace_def upper_def upper_char_def
      ascii_lowercase_def ascii_uppercase_def)

lemma custom_tickers_lower: "custom_tickers ''a.ns'' = [''A.NS'']"
  by (simp add: custom_tickers_def strip_def py_isspace_def upper_def upper_char_def
      ascii_lowercase_def ascii_uppercase_def)

text \<open>
  Claim C6: the effective watch-list is the default list, then the popular selection,
  then the custom tickers, in that order and with nothing removed, so a symbol present
  in several sources appears several times. The custom tickers are the comma-separated
  pieces of the text, in order, each trimmed and upper-cased, the blank ones dropped;
  the defaults A.NS and B.NS, the selection C.NS and the text of the three pieces d.ns,
  a blank and E.NS give A.NS, B.NS, C.NS, D.NS, E.NS.
\<close>

theorem ticker_list_assembly:
  "ticker_list default_tickers additional_tickers manual_input
     = default_tickers @ additional_tickers @ custom_tickers manual_input
   \<and> (\<forall>t \<in> set (custom_tickers manual_input).
         t \<noteq> [] \<and> strip t = t \<and> upper t = t \<and> CHR '','' \<notin> set t)
   \<and> custom_tickers (a @ '','' @ b) = custom_tickers a @ custom_tickers b
   \<and> (CHR '','' \<notin> set tok \<longrightarrow>
        custom_tickers tok = (if strip tok = [] then [] else [upper (strip tok)]))
   \<and> ticker_list [''A.NS'', ''B.NS''] [''C.NS''] '' d.ns, ,E.NS ''
        = [''A.NS'', ''B.NS'', ''C.NS'', ''D.NS'', ''E.NS'']
   \<and> ticker_list [''A.NS''] [''A.NS''] ''a.ns'' = [''A.NS'', ''A.NS'', ''A.NS'']"
proof -
  have tok: "\<And>t. t \<in> set (custom_tickers manual_input) \<Longrightarrow>
      t \<noteq> [] \<and> strip t = t \<and> upper t = t \<and> CHR '','' \<notin> set t"
  proof -
    fix t assume "t \<in> set (custom_tickers manual_input)"
    then obtain u where u: "u \<in> set (split_on CHR '','' manual_input)" "strip u \<noteq> []"
        "t = upper (strip u)"
      by (auto simp: custom_tickers_def)
    have "CHR '','' \<notin> set (strip u)"
      using split_on_pieces [OF u(1)] strip_subset [of u] by blast
    then have "CHR '','' \<notin> set t"
      unfolding u(3) upper_def using upper_char_comma by (metis imageE list.set_map)
    moreover have "t \<noteq> []" using u by (simp add: upper_def)
    moreover have "strip t = t" by (simp add: u(3) strip_upper strip_idem)
    moreover have "upper t = t" by (simp add: u(3) upper_idem)
    ultimately show "t \<noteq> [] \<and> strip t = t \<and> upper t = t \<and> CHR '','' \<notin> set t" by simp
  qed
  have app: "custom_tickers (a @ '','' @ b) = custom_tickers a @ custom_tickers b"
    by (simp add: custom_tickers_def split_on_append)
  have one: "CHR '','' \<notin> set tok \<longrightarrow>
        custom_tickers tok = (if strip tok = [] then [] else [upper (strip tok)])"
    by (simp add: custom_tickers_def split_on_no_sep)
  show ?thesis
    using tok app one
    by (simp add: ticker_list_def custom_tickers_example custom_tickers_lower)
qed

theorem ticker_list_assembly_witness:
  "''D.NS'' \<in> set (custom_tickers '' d.ns, ,E.NS '')
   \<and> strip ''D.NS'' = ''D.NS'' \<and> upper ''D.NS'' = ''D.NS''
   \<and> ticker_list [''A.NS'', ''B.NS''] [''C.NS''] '' d.ns, ,E.NS ''
        = [''A.NS'', ''B.NS'', ''C.NS'', ''D.NS'', ''E.NS'']"
proof -
  have m: "''D.NS'' \<in> set (custom_tickers '' d.ns, ,E.NS '')"
    by (simp add: custom_tickers_example)
  show ?thesis
    using m ticker_list_assembly [of "[]" "[]" "'' d.ns, ,E.NS ''" "[]" "[]" "[]"]
    by blast
qed

section \<open>Properties of the live refresh\<close>

lemma fetch_all_keys:
  "fst ` set (fst (fetch_all h ts acc w))
     = fst ` set acc \<union> {t. \<exists>ld. (t, Some ld) \<in> set (fetch_results h ts w)}"
proof (induction ts arbitrary: acc w)
  case Nil
  then show ?case by simp
next
  case (Cons t ts)
  show ?case
  proof (cases "get_live_price h t w")
    case (Pair r w')
    show ?thesis
    proof (cases r)
      case None
      with Pair Cons show ?thesis by auto
    next
      case (Some ld)
      with Pair Cons show ?thesis by (auto simp: dom_update)
    qed
  qed
qed

lemma fetch_all_values:
  "map_of (fst (fetch_all h ts acc w)) t = Some e \<Longrightarrow>
   map_of acc t = Some e \<or> (\<exists>ld. (t, Some ld) \<in> set (fetch_results h ts w) \<and> e = entry_of ld)"
proof (induction ts arbitrary: acc w)
  case Nil
  then show ?case by simp
next
  case (Cons u ts)
  show ?case
  proof (cases "get_live_price h u w")
    case (Pair r w')
    show ?thesis
    proof (cases r)
      case None
      with Pair Cons show ?thesis by auto
    next
      case (Some ld)
      with Pair Cons.prems
      have "map_of (fst (fetch_all h ts (AList.update u (entry_of ld) acc) w')) t = Some e"
        by simp
      from Cons.IH [OF this] Pair Some show ?thesis
        by (auto simp: update_conv' split: if_splits)
    qed
  qed
qed

lemma fetch_all_empty_iff:
  "fst (fetch_all h ts [] w) = [] \<longleftrightarrow> \<not> (\<exists>t ld. (t, Some ld) \<in> set (fetch_results h ts w))"
proof -
  have "fst (fetch_all h ts [] w) = [] \<longleftrightarrow> fst ` set (fst (fetch_all h ts [] w)) = {}"
    by simp
  also have "\<dots> \<longleftrightarrow> \<not> (\<exists>t ld. (t, Some ld) \<in> set (fetch_results h ts w))"
    unfolding fetch_all_keys by auto
  finally show ?thesis .
qed

lemma td_seconds_elapsed:
  assumes "0 \<le> d" "r \<le> td_seconds d"
  shows "r * 1000000 \<le> d"
proof -
  have a: "0 \<le> d div 1000000"
    using assms(1) by (simp add: pos_imp_zdiv_nonneg_iff)
  have "td_seconds d \<le> d div 1000000"
    unfolding td_seconds_def using a by (rule zmod_le_nonneg_dividend)
  moreover have "1000000 * (d div 1000000) + d mod 1000000 = d"
    by (rule mult_div_mod_eq)
  moreover have "0 \<le> d mod 1000000"
    by simp
  ultimately show ?thesis using assms(2) by linarith
qed

lemma update_live_data_step:
  assumes "update_live_data h r ts now st w = (st', w')" "last_update st \<le> now"
  shows "last_update st' = last_update st
         \<or> (last_update st' = now \<and> last_update st + r * 1000000 \<le> now)"
proof (cases "r \<le> td_seconds (now - last_update st)")
  case True
  then have "r * 1000000 \<le> now - last_update st"
    using td_seconds_elapsed [of "now - last_update st" r] assms(2) by simp
  then show ?thesis
    using assms(1) True
    by (auto simp: update_live_data_def split: prod.splits if_splits)
next
  case False
  then show ?thesis
    using assms(1) by (auto simp: update_live_data_def)
qed

lemma run_attempts_spacing:
  "sorted (map fst attempts) \<Longrightarrow> \<forall>a \<in> set attempts. last_update st \<le> fst a \<Longrightarrow>
   successively (\<lambda>a b. b = a \<or> a + r * 1000000 \<le> b)
     (last_update st # map (\<lambda>p. last_update (fst p)) (run_attempts r ts attempts st w))"
proof (induction attempts arbitrary: st w)
  case Nil
  then show ?case by simp
next
  case (Cons a attempts)
  obtain now h where a: "a = (now, h)" by (cases a)
  obtain st' w' where u: "update_live_data h r ts now st w = (st', w')"
    by (cases "update_live_data h r ts now st w")
  have le: "last_update st \<le> now" using Cons.prems(2) a by simp
  note step = update_live_data_step [OF u le]
  have later: "\<forall>b \<in> set attempts. now \<le> fst b"
    using Cons.prems(1) a by auto
  have "\<forall>b \<in> set attempts. last_update st' \<le> fst b"
    using step later Cons.prems(2) by auto
  moreover have "sorted (map fst attempts)" using Cons.prems(1) by simp
  ultimately have ih: "successively (\<lambda>a b. b = a \<or> a + r * 1000000 \<le> b)
     (last_update st' # map (\<lambda>p. last_update (fst p)) (run_attempts r ts attempts st' w'))"
    by (rule Cons.IH [rotated])
  show ?case
    using ih step by (auto simp: a u)
qed

text \<open>
  Claim C2, as stated, has a symbol whose fetch returns no snapshot keep its cached
  snapshot when another symbol's fetch succeeds. The refresh replaces the whole price
  map by the map of this refresh's snapshots: with A.NS cached, a refresh in which
  A.NS returns no bars and B.NS returns one leaves no entry for A.NS.
\<close>

theorem update_live_data_drops_counterexample:
  "map_of (price_data \<lparr>price_data = [(''A.NS'', \<lparr>pe_price = 100, pe_change = 1,
        pe_pct_change = Finite 1, pe_time = 0\<rparr>)], last_update = 0\<rparr>) ''A.NS''
     = Some \<lparr>pe_price = 100, pe_change = 1, pe_pct_change = Finite 1, pe_time = 0\<rparr>
   \<and> fetch_results
       (\<lambda>t w. (if t = ''B.NS''
                then Inr [\<lparr>b_time = 9, b_open = 50, b_high = 50, b_low = 50, b_close = 50,
                            b_volume = 7\<rparr>]
                else Inr [], w))
       [''A.NS'', ''B.NS''] ()
     = [(''A.NS'', None),
        (''B.NS'', Some \<lparr>lp_price = 50, lp_time = 9, lp_change = 0, lp_pct_change = Finite 0,
                         lp_volume = 7\<rparr>)]
   \<and> map_of (price_data (fst (update_live_data
       (\<lambda>t w. (if t = ''B.NS''
                then Inr [\<lparr>b_time = 9, b_open = 50, b_high = 50, b_low = 50, b_close = 50,
                            b_volume = 7\<rparr>]
                else Inr [], w))
       5 [''A.NS'', ''B.NS''] 10000000
       \<lparr>price_data = [(''A.NS'', \<lparr>pe_price = 100, pe_change = 1,
            pe_pct_change = Finite 1, pe_time = 0\<rparr>)], last_update = 0\<rparr> ()))) ''A.NS''
     = None"
  by (simp add: update_live_data_def td_seconds_def get_live_price_def entry_of_def)

text \<open>
  Claim C2, amended: when a refresh runs (the seconds elapsed reach the refresh rate)
  and at least one symbol's fetch returns a snapshot, the price map after it holds
  exactly the symbols for which a fetch of this refresh returned a snapshot, each with
  an entry made from such a snapshot; a symbol that returned none is absent, whatever
  was cached for it. When the refresh does not run, or no fetch returns a snapshot, the
  price map is unchanged.
\<close>

theorem update_live_data_replaces_price_map:
  assumes "update_live_data h r ts now st w = (st', w')"
  shows "(r \<le> td_seconds (now - last_update st)
            \<and> (\<exists>t ld. (t, Some ld) \<in> set (fetch_results h ts w)) \<longrightarrow>
          (\<forall>t. t \<in> fst ` set (price_data st')
                 \<longleftrightarrow> (\<exists>ld. (t, Some ld) \<in> set (fetch_results h ts w)))
          \<and> (\<forall>t e. map_of (price_data st') t = Some e \<longrightarrow>
                 (\<exists>ld. (t, Some ld) \<in> set (fetch_results h ts w) \<and> e = entry_of ld)))
       \<and> (td_seconds (now - last_update st) < r
            \<or> \<not> (\<exists>t ld. (t, Some ld) \<in> set (fetch_results h ts w)) \<longrightarrow>
          price_data st' = price_data st)"
proof (cases "r \<le> td_seconds (now - last_update st)")
  case False
  then show ?thesis using assms by (auto simp: update_live_data_def)
next
  case True
  show ?thesis
  proof (cases "\<exists>t ld. (t, Some ld) \<in> set (fetch_results h ts w)")
    case False
    then have "fst (fetch_all h ts [] w) = []" by (simp add: fetch_all_empty_iff)
    then show ?thesis
      using assms True False by (auto simp: update_live_data_def split: prod.splits)
  next
    case some: True
    then have ne: "fst (fetch_all h ts [] w) \<noteq> []" by (simp add: fetch_all_empty_iff)
    then have pd: "price_data st' = fst (fetch_all h ts [] w)"
      using assms True by (auto simp: update_live_data_def split: prod.splits)
    have keys: "\<forall>t. t \<in> fst ` set (price_data st')
                 \<longleftrightarrow> (\<exists>ld. (t, Some ld) \<in> set (fetch_results h ts w))"
      unfolding pd fetch_all_keys by simp
    have vals: "\<forall>t e. map_of (price_data st') t = Some e \<longrightarrow>
                 (\<exists>ld. (t, Some ld) \<in> set (fetch_results h ts w) \<and> e = entry_of ld)"
      unfolding pd using fetch_all_values [of h ts "[]" w] by auto
    show ?thesis using True some keys vals by auto
  qed
qed

theorem update_live_data_replaces_price_map_witness:
  "fst ` set (price_data (fst (update_live_data
       (\<lambda>t w. (if t = ''A.NS'' then Inr []
                else Inr [\<lparr>b_time = 9, b_open = 50, b_high = 50, b_low = 50, b_close = 50,
                            b_volume = 7\<rparr>], w))
       5 [''A.NS'', ''B.NS'', ''C.NS''] 10000000
       \<lparr>price_data = [(''A.NS'', \<lparr>pe_price = 100, pe_change = 1,
            pe_pct_change = Finite 1, pe_time = 0\<rparr>)], last_update = 0\<rparr> ())))
     = {''B.NS'', ''C.NS''}"
proof -
  let ?h = "\<lambda>(t :: string) (w :: unit).
      (if t = ''A.NS'' then Inr []
       else Inr [\<lparr>b_time = 9, b_open = 50, b_high = 50, b_low = 50, b_close = 50,
                   b_volume = 7\<rparr>] :: py_error + bar list, w)"
  let ?st = "\<lparr>price_data = [(''A.NS'', \<lparr>pe_price = 100, pe_change = 1,
            pe_pct_change = Finite 1, pe_time = 0\<rparr>)], last_update = 0\<rparr>"
  let ?snap = "\<lparr>lp_price = 50, lp_time = 9, lp_change = 0, lp_pct_change = Finite 0,
      lp_volume = 7\<rparr>"
  have fr: "fetch_results ?h [''A.NS'', ''B.NS'', ''C.NS''] ()
      = [(''A.NS'', None), (''B.NS'', Some ?snap), (''C.NS'', Some ?snap)]"
    by (simp add: get_live_price_def)
  have gate: "5 \<le> td_seconds (10000000 - last_update ?st)"
    by (simp add: td_seconds_def)
  have some: "\<exists>t ld. (t, Some ld) \<in> set (fetch_results ?h [''A.NS'', ''B.NS'', ''C.NS''] ())"
    unfolding fr by auto
  have "\<forall>t. t \<in> fst ` set (price_data (fst (update_live_data ?h 5
              [''A.NS'', ''B.NS'', ''C.NS''] 10000000 ?st ())))
          \<longleftrightarrow> (\<exists>ld. (t, Some ld) \<in> set (fetch_results ?h [''A.NS'', ''B.NS'', ''C.NS''] ()))"
    using gate some
      update_live_data_replaces_price_map
        [where h = ?h and r = 5 and ts = "[''A.NS'', ''B.NS'', ''C.NS'']" and now = 10000000
           and st = ?st and w = "()", OF surjective_pairing]
    by blast
  then show ?thesis
    unfolding fr by auto
qed

text \<open>
  Claim C5: with refresh rate \<open>r\<close>, an attempt made while the seconds elapsed since
  \<open>last_update\<close> are below \<open>r\<close> calls the provider for nothing and changes nothing;
  an attempt that does anything, on a clock that has not gone back, comes at least \<open>r\<close>
  seconds after \<open>last_update\<close>; \<open>last_update\<close> changes only in a refresh in which some
  fetch returned a snapshot, and then becomes the time of the attempt. Hence over any
  run of attempts at non-decreasing times, \<open>last_update\<close> stays or advances by at
  least \<open>r\<close> seconds from one attempt to the next: the cache is refreshed at most once
  per interval of \<open>r\<close> seconds.
\<close>

theorem update_live_data_throttle:
  "(td_seconds (now - last_update st) < r \<longrightarrow>
      update_live_data h r ts now st w = (st, w))
   \<and> (update_live_data h r ts now st w \<noteq> (st, w) \<and> last_update st \<le> now \<longrightarrow>
        last_update st + r * 1000000 \<le> now)
   \<and> (last_update (fst (update_live_data h r ts now st w)) \<noteq> last_update st \<longrightarrow>
        last_update (fst (update_live_data h r ts now st w)) = now
        \<and> r \<le> td_seconds (now - last_update st)
        \<and> (\<exists>t ld. (t, Some ld) \<in> set (fetch_results h ts w))
        \<and> price_data (fst (update_live_data h r ts now st w)) \<noteq> [])
   \<and> (sorted (map fst attempts) \<and> (\<forall>a \<in> set attempts. last_update st \<le> fst a) \<longrightarrow>
        successively (\<lambda>a b. b = a \<or> a + r * 1000000 \<le> b)
          (last_update st # map (\<lambda>p. last_update (fst p)) (run_attempts r ts attempts st w)))"
proof -
  have p1: "td_seconds (now - last_update st) < r \<longrightarrow>
      update_live_data h r ts now st w = (st, w)"
    by (simp add: update_live_data_def)
  have p2: "update_live_data h r ts now st w \<noteq> (st, w) \<and> last_update st \<le> now \<longrightarrow>
        last_update st + r * 1000000 \<le> now"
  proof (cases "r \<le> td_seconds (now - last_update st)")
    case True
    then show ?thesis
      using td_seconds_elapsed [of "now - last_update st" r] by auto
  next
    case False
    then show ?thesis by (simp add: update_live_data_def)
  qed
  have p3: "last_update (fst (update_live_data h r ts now st w)) \<noteq> last_update st \<longrightarrow>
        last_update (fst (update_live_data h r ts now st w)) = now
        \<and> r \<le> td_seconds (now - last_update st)
        \<and> (\<exists>t ld. (t, Some ld) \<in> set (fetch_results h ts w))
        \<and> price_data (fst (update_live_data h r ts now st w)) \<noteq> []"
    using fetch_all_empty_iff [of h ts w]
    by (auto simp: update_live_data_def split: prod.splits if_splits)
  have p4: "sorted (map fst attempts) \<and> (\<forall>a \<in> set attempts. last_update st \<le> fst a) \<longrightarrow>
        successively (\<lambda>a b. b = a \<or> a + r * 1000000 \<le> b)
          (last_update st # map (\<lambda>p. last_update (fst p)) (run_attempts r ts attempts st w))"
    using run_attempts_spacing [of attempts st r ts w] by blast
  show ?thesis using p1 p2 p3 p4 by blast
qed

theorem update_live_data_throttle_witness:
  "update_live_data
       (\<lambda>t n. (Inr [\<lparr>b_time = 9, b_open = 50, b_high = 50, b_low = 50, b_close = 50,
                       b_volume = 7\<rparr>], Suc n))
       5 [''A.NS''] 2000000 \<lparr>price_data = [], last_update = 0\<rparr> (0 :: nat)
     = (\<lparr>price_data = [], last_update = 0\<rparr>, 0)
   \<and> successively (\<lambda>a b. b = a \<or> a + 5 * 1000000 \<le> b)
        (last_update \<lparr>price_data = [], last_update = 0\<rparr>
         # map (\<lambda>p. last_update (fst p))
             (run_attempts 5 [''A.NS'']
                [(2000000, \<lambda>t n. (Inr [\<lparr>b_time = 9, b_open = 50, b_high = 50, b_low = 50,
                                          b_close = 50, b_volume = 7\<rparr>], Suc n)),
                 (6000000, \<lambda>t n. (Inr [\<lparr>b_time = 9, b_open = 50, b_high = 50, b_low = 50,
                                          b_close = 50, b_volume = 7\<rparr>], Suc n)),
                 (8000000, \<lambda>t n. (Inr [\<lparr>b_time = 9, b_open = 50, b_high = 50, b_low = 50,
                                          b_close = 50, b_volume = 7\<rparr>], Suc n))]
                \<lparr>price_data = [], last_update = 0\<rparr> (0 :: nat)))
   \<and> map (\<lambda>p. (last_update (fst p), snd p))
        (run_attempts 5 [''A.NS'']
           [(2000000, \<lambda>t n. (Inr [\<lparr>b_time = 9, b_open = 50, b_high = 50, b_low = 50,
                                     b_close = 50, b_volume = 7\<rparr>], Suc n)),
            (6000000, \<lambda>t n. (Inr [\<lparr>b_time = 9, b_open = 50, b_high = 50, b_low = 50,
                                     b_close = 50, b_volume = 7\<rparr>], Suc n)),
            (8000000, \<lambda>t n. (Inr [\<lparr>b_time = 9, b_open = 50, b_high = 50, b_low = 50,
                                     b_close = 50, b_volume = 7\<rparr>], Suc n))]
           \<lparr>price_data = [], last_update = 0\<rparr> (0 :: nat))
     = [(0, 0), (6000000, 1), (6000000, 1)]"
proof -
  let ?h = "\<lambda>(t :: string) (n :: nat).
      (Inr [\<lparr>b_time = 9, b_open = 50, b_high = 50, b_low = 50, b_close = 50,
              b_volume = 7\<rparr>] :: py_error + bar list, Suc n)"
  let ?st = "\<lparr>price_data = [], last_update = 0\<rparr>"
  let ?attempts = "[(2000000 :: int, ?h), (6000000, ?h), (8000000, ?h)]"
  note thr = update_live_data_throttle
    [where h = ?h and r = 5 and ts = "[''A.NS'']" and now = 2000000 and st = ?st
       and w = "0 :: nat" and attempts = ?attempts]
  have early: "td_seconds (2000000 - last_update ?st) < 5"
    by (simp add: td_seconds_def)
  have ordered: "sorted (map fst ?attempts) \<and> (\<forall>a \<in> set ?attempts. last_update ?st \<le> fst a)"
    by simp
  have a: "update_live_data ?h 5 [''A.NS''] 2000000 ?st 0 = (?st, 0)"
    using thr early by blast
  have b: "successively (\<lambda>a b. b = a \<or> a + 5 * 1000000 \<le> b)
      (last_update ?st # map (\<lambda>p. last_update (fst p)) (run_attempts 5 [''A.NS''] ?attempts ?st 0))"
    using thr ordered by blast
  have c: "map (\<lambda>p. (last_update (fst p), snd p)) (run_attempts 5 [''A.NS''] ?attempts ?st 0)
      = [(0, 0), (6000000, 1), (6000000, 1)]"
    by (simp add: update_live_data_def td_seconds_def get_live_price_def entry_of_def)
  show ?thesis using a b c by blast
qed

end
